theory Spec2Isabelle
  imports Complex_Main
begin

section \<open>Data model\<close>

text \<open>
  The dashboard \<^verbatim>\<open>app.py\<close> works on one pandas data frame read from
  \<^verbatim>\<open>aadhaar_dashboard_data.csv\<close>. A row of the frame is a district record; the fields
  below are the columns the script refers to by name. The stress metric is the column
  \<^verbatim>\<open>assi\<close>. Numbers are modelled as exact reals, which is enough for the properties of
  order and structure proved below; where a decimal value of the relief arithmetic is
  asserted, lines 93 and 96 are read in binary64 (section on double precision). Missing
  values (NaN) and cells of the wrong type are outside this model, and sums are exact
  (a sum of an integer column beyond 63 bits would wrap in pandas).
\<close>

record district_record =
  state :: string
  district :: string
  assi :: real
  Priority :: string
  security_status :: string
  future_mbu_demand :: real
  Preparedness_Index :: real
  District_Playbook :: string
  district_type :: string
  assi_acceleration :: real
  age_18_greater :: real

text \<open>
  A data frame has a header (the names of the columns that exist) and rows. A field of a
  row whose column is not in the header carries no information: every read of a column
  in the model first looks the name up in the header, as \<^verbatim>\<open>df[name]\<close> does.
\<close>

record dataframe =
  columns :: "string list"
  rows :: "district_record list"

datatype exn = KeyError string | IndexError | ValueError

text \<open>
  What one run of the script ends with: the page was built, the script stopped itself
  after showing a message (\<^verbatim>\<open>st.stop()\<close>), or an exception went uncaught.
\<close>

datatype user_message = Error_message string | Warning_message string

datatype 'a outcome = Completed 'a | Halted user_message | Raised exn

section \<open>Loading and cleaning (lines 30 to 49)\<close>

text \<open>
  \<^verbatim>\<open>str.strip()\<close> and \<^verbatim>\<open>str.title()\<close> on text whose characters are ASCII: the white space
  of Python below code point 128 is 9 to 13, 28 to 31 and 32, and the cased characters
  are the letters. Characters from 128 on are left alone by this model.
\<close>

definition isspace :: "char \<Rightarrow> bool" where
  "isspace c = (c \<in> set [CHR 0x09, CHR 0x0A, CHR 0x0B, CHR 0x0C, CHR 0x0D,
                          CHR 0x1C, CHR 0x1D, CHR 0x1E, CHR 0x1F, CHR 0x20])"

definition strip :: "string \<Rightarrow> string" where
  "strip s = rev (dropWhile isspace (rev (dropWhile isspace s)))"

definition ascii_lowercase :: string where
  "ascii_lowercase = ''abcdefghijklmnopqrstuvwxyz''"

definition ascii_uppercase :: string where
  "ascii_uppercase = ''ABCDEFGHIJKLMNOPQRSTUVWXYZ''"

definition isupper :: "char \<Rightarrow> bool" where
  "isupper c = (c \<in> set ascii_uppercase)"

definition islower :: "char \<Rightarrow> bool" where
  "islower c = (c \<in> set ascii_lowercase)"

definition upper :: "char \<Rightarrow> char" where
  "upper c = (case map_of (zip ascii_lowercase ascii_uppercase) c of Some u \<Rightarrow> u | None \<Rightarrow> c)"

definition lower :: "char \<Rightarrow> char" where
  "lower c = (case map_of (zip ascii_uppercase ascii_lowercase) c of Some l \<Rightarrow> l | None \<Rightarrow> c)"

text \<open>
  Title case as CPython computes it: a character that follows a cased character is
  lowered, any other character is raised.
\<close>

fun title_from :: "bool \<Rightarrow> string \<Rightarrow> string" where
  "title_from previous_is_cased [] = []"
| "title_from previous_is_cased (c # cs) =
     (if previous_is_cased then lower c else upper c) # title_from (isupper c \<or> islower c) cs"

definition title :: "string \<Rightarrow> string" where
  "title s = title_from False s"

definition state_corrections :: "(string \<times> string) list" where
  "state_corrections =
     [(''Westbengal'', ''West Bengal''), (''West Bangal'', ''West Bengal''),
      (''Westbenga'', ''West Bengal''), (''Telengana'', ''Telangana''),
      (''Orissa'', ''Odisha''), (''Chattisgarh'', ''Chhattisgarh''),
      (''Jammu And Kashmir'', ''Jammu & Kashmir''), (''Daman And Diu'', ''Daman & Diu''),
      (''Dadra And Nagar Haveli'', ''Dadra & Nagar Haveli'')]"

text \<open>
  \<^verbatim>\<open>Series.replace(dict)\<close>: a value equal to a key becomes the key's value, any other
  value stays.
\<close>

definition replace_value :: "(string \<times> string) list \<Rightarrow> string \<Rightarrow> string" where
  "replace_value corrections v = (case map_of corrections v of Some w \<Rightarrow> w | None \<Rightarrow> v)"

definition clean_state :: "string \<Rightarrow> string" where
  "clean_state v = replace_value state_corrections (title (strip v))"

text \<open>
  \<^verbatim>\<open>load_data\<close>. Its argument is what \<^verbatim>\<open>pd.read_csv\<close> finds: \<open>None\<close> when the file does not
  exist (the \<^verbatim>\<open>FileNotFoundError\<close> the function catches). The lookup of the column
  \<^verbatim>\<open>state\<close> is inside the \<^verbatim>\<open>try\<close>, but a \<^verbatim>\<open>KeyError\<close> is not what the handler catches.
\<close>

definition load_data :: "dataframe option \<Rightarrow> dataframe outcome" where
  "load_data csv =
     (case csv of
        None \<Rightarrow> Halted (Error_message ''Data file not found! Run the Notebook Export step first.'')
      | Some df \<Rightarrow>
          (if ''state'' \<in> set (columns df) then
             Completed (df\<lparr>rows := map (\<lambda>r. r\<lparr>state := clean_state (state r)\<rparr>) (rows df)\<rparr>)
           else Raised (KeyError ''state'')))"

section \<open>Region filter (lines 56 to 62)\<close>

text \<open>
  The value of the region select box is an input of the model. After \<^verbatim>\<open>load_data\<close> the
  column \<^verbatim>\<open>state\<close> exists, so the comparison of line 60 cannot fail.
\<close>

definition filter_region :: "string \<Rightarrow> dataframe \<Rightarrow> dataframe" where
  "filter_region selected_state df =
     (if selected_state \<noteq> ''All India'' then
        df\<lparr>rows := filter (\<lambda>r. state r = selected_state) (rows df)\<rparr>
      else df)"

section \<open>Policy simulator (lines 70 to 100)\<close>

text \<open>The sidebar message each branch of the simulator shows.\<close>

datatype sidebar_message =
  Alert nat real
  | Info_increase_load
  | Success real
  | Info_deploy_resources

text \<open>
  The radio button with the slider values of the chosen mode: the load multiplier
  (a float slider from 1.0 to 5.0), or the kit count (an integer slider from 0 to 50)
  and the staff efficiency percentage (an integer slider from 0 to 100).
\<close>

datatype sim_mode = Stress_Test real | Deploy_Solutions int int

text \<open>Line 79: the number of rows of a frame with stress above 5.0.\<close>

definition count_collapsed :: "dataframe \<Rightarrow> nat" where
  "count_collapsed dashboard_df = length (filter (\<lambda>r. assi r > 5) (rows dashboard_df))"

definition stress_test :: "real \<Rightarrow> dataframe \<Rightarrow> exn + dataframe \<times> sidebar_message" where
  "stress_test load_multiplier dashboard_df =
     (if load_multiplier > 1 then
        (if ''assi'' \<in> set (columns dashboard_df) then
           (let df' = dashboard_df\<lparr>rows :=
                        map (\<lambda>r. r\<lparr>assi := assi r * load_multiplier\<rparr>) (rows dashboard_df)\<rparr>;
                collapsed_count = count_collapsed df'
            in Inr (df', Alert collapsed_count load_multiplier))
         else Inl (KeyError ''assi''))
      else Inr (dashboard_df, Info_increase_load))"

text \<open>
  Lines 91 to 100 in exact arithmetic. The same lines with every operation rounded to a
  double follow in the section on double precision.
\<close>

definition impact :: "int \<Rightarrow> int \<Rightarrow> real" where
  "impact new_kits staff_boost =
     min (real_of_int new_kits * 0.02 + real_of_int staff_boost * 0.01) 0.90"

definition deploy_solutions :: "int \<Rightarrow> int \<Rightarrow> dataframe \<Rightarrow> exn + dataframe \<times> sidebar_message" where
  "deploy_solutions new_kits staff_boost dashboard_df =
     (if new_kits > 0 \<or> staff_boost > 0 then
        (if ''assi'' \<in> set (columns dashboard_df) then
           Inr (dashboard_df\<lparr>rows :=
                  map (\<lambda>r. r\<lparr>assi := max (assi r * (1 - impact new_kits staff_boost)) 0.1\<rparr>)
                    (rows dashboard_df)\<rparr>,
                Success (impact new_kits staff_boost))
         else Inl (KeyError ''assi''))
      else Inr (dashboard_df, Info_deploy_resources))"

fun simulate :: "sim_mode \<Rightarrow> dataframe \<Rightarrow> exn + dataframe \<times> sidebar_message" where
  "simulate (Stress_Test load_multiplier) dashboard_df = stress_test load_multiplier dashboard_df"
| "simulate (Deploy_Solutions new_kits staff_boost) dashboard_df =
     deploy_solutions new_kits staff_boost dashboard_df"


section \<open>The relief arithmetic in double precision (lines 93 and 96)\<close>

text \<open>
  Python floats and the pandas column are IEEE binary64: every operation returns the
  representable number nearest to the exact result, ties going to the even significand.
  A number of binary exponent \<open>e\<close> is a multiple of \<open>2 powi (e - 52)\<close>; below the exponent
  -1022 the spacing stays \<open>2 powi (- 1074)\<close>. Results beyond the largest double
  (infinity) do not arise in lines 93 and 96 and are not modelled.
\<close>

definition round_half_even :: "real \<Rightarrow> int" where
  "round_half_even x =
     (let n = \<lfloor>x\<rfloor>; d = x - of_int n in
      if d < 1 / 2 then n else if 1 / 2 < d then n + 1 else if even n then n else n + 1)"

definition exponent :: "real \<Rightarrow> int" where
  "exponent x =
     (case find (\<lambda>e. \<bar>x\<bar> < 2 powi (e + 1)) [- 1022..1023] of Some e \<Rightarrow> e | None \<Rightarrow> 1024)"

definition round_double :: "real \<Rightarrow> real" where
  "round_double x =
     (let quantum = 2 powi (exponent x - 52)
      in of_int (round_half_even (x / quantum)) * quantum)"

text \<open>
  Line 93 with its literals and operations rounded: the integer slider values convert
  exactly, each product and the sum are rounded once.
\<close>

definition impact_double :: "int \<Rightarrow> int \<Rightarrow> real" where
  "impact_double new_kits staff_boost =
     min (round_double (round_double (real_of_int new_kits * round_double 0.02)
                        + round_double (real_of_int staff_boost * round_double 0.01)))
         (round_double 0.90)"

text \<open>Lines 91 to 100 with the arithmetic of line 96 rounded.\<close>

definition deploy_solutions_double ::
  "int \<Rightarrow> int \<Rightarrow> dataframe \<Rightarrow> exn + dataframe \<times> sidebar_message" where
  "deploy_solutions_double new_kits staff_boost dashboard_df =
     (if new_kits > 0 \<or> staff_boost > 0 then
        (if ''assi'' \<in> set (columns dashboard_df) then
           Inr (dashboard_df\<lparr>rows :=
                  map (\<lambda>r. r\<lparr>assi :=
                         max (round_double
                                (assi r * round_double (1 - impact_double new_kits staff_boost)))
                             (round_double 0.1)\<rparr>)
                    (rows dashboard_df)\<rparr>,
                Success (impact_double new_kits staff_boost))
         else Inl (KeyError ''assi''))
      else Inr (dashboard_df, Info_deploy_resources))"

section \<open>The page (lines 102 to 216)\<close>

text \<open>
  What the four tabs compute from the working frame. The drawing itself (charts, markdown,
  styling) is left out; the scatter chart is kept as the two checks by which the charting
  library raises \<^verbatim>\<open>ValueError\<close>: a name that is not a column, and a marker size (the
  stress, \<^verbatim>\<open>size="assi"\<close>) that is negative.
\<close>

record overview =
  critical_count :: nat
  median_stress :: "real option"
  mbu_total :: real
  security_alerts :: nat
  pie_names :: "string list"

record table =
  header :: "string list"
  body :: "district_record list"

datatype banner = Banner_error | Banner_warning | Banner_success

record district_card =
  heading :: string
  card_priority :: string
  priority_banner :: banner
  card_score :: real
  card_color :: string
  projected_updates :: int
  official_order :: string
  progress :: real

record board =
  chart :: "(string \<times> real \<times> string) list option"
  schedule :: table
  export_csv :: dataframe

record page =
  sidebar :: sidebar_message
  tab1_overview :: overview
  tab2_sentinel :: "table option"
  tab3_card :: district_card
  tab4_board :: board

text \<open>
  \<^verbatim>\<open>Series.median()\<close>: the middle value of the sorted values, the mean of the two middle
  values when their number is even, and no number (\<open>None\<close> here) for an empty series.
\<close>

definition median_series :: "real list \<Rightarrow> real option" where
  "median_series xs =
     (let ys = sort xs; n = length ys in
      if n = 0 then None
      else if odd n then Some (ys ! (n div 2))
      else Some ((ys ! (n div 2 - 1) + ys ! (n div 2)) / 2))"

text \<open>
  Tab 1, lines 110 to 140. Line 138 adds the column \<^verbatim>\<open>district_type\<close> to the working
  frame when it is absent, so the tab hands the frame on.
\<close>

definition tab1 :: "dataframe \<Rightarrow> exn + dataframe \<times> overview" where
  "tab1 dashboard_df =
     (let cols = set (columns dashboard_df) in
      if ''Priority'' \<notin> cols then Inl (KeyError ''Priority'')
      else if ''assi'' \<notin> cols then Inl (KeyError ''assi'')
      else if ''future_mbu_demand'' \<notin> cols then Inl (KeyError ''future_mbu_demand'')
      else if ''security_status'' \<notin> cols then Inl (KeyError ''security_status'')
      else if \<not> set [''assi_acceleration'', ''age_18_greater'', ''security_status'', ''assi'',
                      ''district''] \<subseteq> cols then Inl ValueError
      else if list_ex (\<lambda>r. assi r < 0) (rows dashboard_df) then Inl ValueError
      else
        (let critical_count = length (filter (\<lambda>r. Priority r = ''CRITICAL'') (rows dashboard_df));
             median_stress = median_series (map assi (rows dashboard_df));
             mbu_total = sum_list (map future_mbu_demand (rows dashboard_df));
             security_alerts =
               length (filter (\<lambda>r. security_status r \<noteq> ''Normal'') (rows dashboard_df));
             dashboard_df =
               (if ''district_type'' \<notin> cols then
                  dashboard_df\<lparr>columns := columns dashboard_df @ [''district_type''],
                    rows := map (\<lambda>r. r\<lparr>district_type := ''Unknown''\<rparr>) (rows dashboard_df)\<rparr>
                else dashboard_df)
         in Inr (dashboard_df,
                 \<lparr>critical_count = critical_count, median_stress = median_stress,
                  mbu_total = mbu_total, security_alerts = security_alerts,
                  pie_names = map district_type (rows dashboard_df)\<rparr>)))"

text \<open>
  The columns of a display table that exist (lines 148 to 149 and 212 to 213).
\<close>

definition valid_cols :: "string list \<Rightarrow> dataframe \<Rightarrow> string list" where
  "valid_cols cols df = filter (\<lambda>c. c \<in> set (columns df)) cols"

text \<open>
  Tab 2, lines 143 to 152. The rows are sorted by falling stress; the order pandas gives
  to rows of equal stress is not fixed by its interface, the model keeps them in their
  order.
\<close>

definition tab2 :: "dataframe \<Rightarrow> exn + table option" where
  "tab2 dashboard_df =
     (if ''security_status'' \<notin> set (columns dashboard_df) then Inl (KeyError ''security_status'')
      else if ''assi'' \<notin> set (columns dashboard_df) then Inl (KeyError ''assi'')
      else
        (let sentinel_data = dashboard_df\<lparr>rows :=
               sort_key (\<lambda>r. - assi r)
                 (filter (\<lambda>r. security_status r \<noteq> ''Normal'') (rows dashboard_df))\<rparr>
         in if rows sentinel_data \<noteq> [] then
              Inr (Some \<lparr>header = valid_cols [''state'', ''district'', ''assi'', ''age_18_greater'',
                                       ''District_Playbook''] sentinel_data,
                         body = rows sentinel_data\<rparr>)
            else Inr None))"

text \<open>\<^verbatim>\<open>int(x)\<close> on a float: rounding towards zero.\<close>

definition int_of_float :: "real \<Rightarrow> int" where
  "int_of_float x = (if 0 \<le> x then \<lfloor>x\<rfloor> else \<lceil>x\<rceil>)"

text \<open>
  Tab 3, lines 155 to 185. The value of the district select box is an input; the box
  offers the districts of the working frame, and \<^verbatim>\<open>.iloc[0]\<close> raises \<^verbatim>\<open>IndexError\<close>
  when no row has the chosen district.
\<close>

definition tab3 :: "string \<Rightarrow> dataframe \<Rightarrow> district_card outcome" where
  "tab3 sel_dist dashboard_df =
     (let cols = set (columns dashboard_df) in
      if ''district'' \<notin> cols then Raised (KeyError ''district'')
      else
        (let dist_list = remdups (map district (rows dashboard_df)) in
         if length dist_list > 0 then
           (case filter (\<lambda>r. district r = sel_dist) (rows dashboard_df) of
              [] \<Rightarrow> Raised IndexError
            | d_data # _ \<Rightarrow>
                (if ''state'' \<notin> cols then Raised (KeyError ''state'')
                 else if ''future_mbu_demand'' \<notin> cols then Raised (KeyError ''future_mbu_demand'')
                 else if ''assi'' \<notin> cols then Raised (KeyError ''assi'')
                 else
                   (let priority = (if ''Priority'' \<in> cols then Priority d_data else ''Normal'');
                        score = (if ''Preparedness_Index'' \<in> cols then Preparedness_Index d_data
                                 else 0)
                    in Completed
                         \<lparr>heading = district d_data @ '', '' @ state d_data,
                          card_priority = priority,
                          priority_banner =
                            (if priority = ''CRITICAL'' then Banner_error
                             else if priority = ''High'' then Banner_warning
                             else Banner_success),
                          card_score = score,
                          card_color = (if score < 40 then ''#FF4B4B''
                                        else if score < 70 then ''#FFA500''
                                        else ''#00CC96''),
                          projected_updates = int_of_float (future_mbu_demand d_data),
                          official_order =
                            (if ''District_Playbook'' \<in> cols then District_Playbook d_data
                             else ''Maintain Operations''),
                          progress = min (assi d_data / 5) 1\<rparr>)))
         else Halted (Warning_message ''No districts found.'')))"

definition get_color :: "real \<Rightarrow> string" where
  "get_color score = (if score < 40 then ''#8b0000'' else if score < 50 then ''#d63031''
                      else ''#fdcb6e'')"

text \<open>
  Tab 4, lines 188 to 216: the chart of the twenty least prepared districts, the
  deployment schedule and its export. As in tab 2, rows of equal score keep their order
  in the model.
\<close>

definition tab4 :: "dataframe \<Rightarrow> exn + board" where
  "tab4 dashboard_df =
     (let cols = set (columns dashboard_df) in
      if ''Preparedness_Index'' \<in> cols \<and> ''district'' \<notin> cols then Inl (KeyError ''district'')
      else if ''Preparedness_Index'' \<in> cols \<and> ''state'' \<notin> cols then Inl (KeyError ''state'')
      else if ''Priority'' \<notin> cols then Inl (KeyError ''Priority'')
      else
        (let chart_data =
               (if ''Preparedness_Index'' \<in> cols then
                  Some (map (\<lambda>r. (district r @ '', '' @ state r, Preparedness_Index r,
                                   get_color (Preparedness_Index r)))
                          (take 20 (sort_key Preparedness_Index (rows dashboard_df))))
                else None);
             action_plan = dashboard_df\<lparr>rows :=
               filter (\<lambda>r. Priority r \<in> set [''CRITICAL'', ''High'']) (rows dashboard_df)\<rparr>;
             action_plan =
               (if ''Preparedness_Index'' \<in> set (columns action_plan) then
                  action_plan\<lparr>rows := sort_key Preparedness_Index (rows action_plan)\<rparr>
                else action_plan)
         in Inr \<lparr>chart = chart_data,
                 schedule =
                   \<lparr>header = valid_cols [''state'', ''district'', ''Priority'', ''assi'',
                       ''future_mbu_demand'', ''District_Playbook'', ''Preparedness_Index'']
                       action_plan,
                    body = rows action_plan\<rparr>,
                 export_csv = action_plan\<rparr>))"

section \<open>One run of the script\<close>

record inputs =
  selected_state :: string
  simulation :: sim_mode
  sel_dist :: string

text \<open>Lines 56 to 216 on the loaded frame.\<close>

definition dashboard :: "inputs \<Rightarrow> dataframe \<Rightarrow> page outcome" where
  "dashboard inp df =
     (let dashboard_df = filter_region (selected_state inp) df in
      case simulate (simulation inp) dashboard_df of
        Inl e \<Rightarrow> Raised e
      | Inr (dashboard_df, msg) \<Rightarrow>
          (case tab1 dashboard_df of
             Inl e \<Rightarrow> Raised e
           | Inr (dashboard_df, ov) \<Rightarrow>
               (case tab2 dashboard_df of
                  Inl e \<Rightarrow> Raised e
                | Inr sentinel \<Rightarrow>
                    (case tab3 (sel_dist inp) dashboard_df of
                       Raised e \<Rightarrow> Raised e
                     | Halted m \<Rightarrow> Halted m
                     | Completed district_info \<Rightarrow>
                         (case tab4 dashboard_df of
                            Inl e \<Rightarrow> Raised e
                          | Inr b \<Rightarrow>
                              Completed \<lparr>sidebar = msg, tab1_overview = ov,
                                tab2_sentinel = sentinel, tab3_card = district_info,
                                tab4_board = b\<rparr>)))))"


section \<open>Example data\<close>

definition puri :: district_record where
  "puri = \<lparr>state = ''Odisha'', district = ''Puri'', assi = 3, Priority = ''High'',
     security_status = ''Normal'', future_mbu_demand = 1200, Preparedness_Index = 45,
     District_Playbook = ''Deploy mobile vans'', district_type = ''Stressed'',
     assi_acceleration = 1 / 2, age_18_greater = 40\<rparr>"

definition all_columns :: "string list" where
  "all_columns = [''state'', ''district'', ''assi'', ''Priority'', ''security_status'',
     ''future_mbu_demand'', ''Preparedness_Index'', ''District_Playbook'', ''district_type'',
     ''assi_acceleration'', ''age_18_greater'']"

definition frame_of :: "district_record list \<Rightarrow> dataframe" where
  "frame_of rs = \<lparr>columns = all_columns, rows = rs\<rparr>"


section \<open>Helper lemmas\<close>






lemma replace_value_not_key:
  "replace_value state_corrections v \<notin> set (map fst state_corrections)"
  by (simp add: replace_value_def state_corrections_def)

lemma replace_value_of_key:
  "v \<in> set (map fst state_corrections)
     \<Longrightarrow> replace_value state_corrections v \<in> set (map snd state_corrections)"
  by (auto simp add: replace_value_def state_corrections_def)

lemma replace_value_other:
  "v \<notin> set (map fst state_corrections) \<Longrightarrow> replace_value state_corrections v = v"
  by (simp add: replace_value_def map_of_eq_None_iff [THEN iffD2])

lemmas eval_clean = clean_state_def replace_value_def state_corrections_def title_def strip_def
  isspace_def isupper_def islower_def upper_def lower_def ascii_lowercase_def ascii_uppercase_def

text \<open>Evaluating the rounding at a number whose binary exponent is known.\<close>

lemma find_upto_least:
  assumes "lo \<le> e" "e \<le> hi" "P e" "\<And>e'. lo \<le> e' \<Longrightarrow> e' < e \<Longrightarrow> \<not> P e'"
  shows "find P [lo..hi] = Some e"
proof -
  define i where "i = nat (e - lo)"
  have len: "i < length [lo..hi]"
    using assms(1,2) by (simp add: i_def)
  have nth: "[lo..hi] ! j = lo + int j" if "j \<le> i" for j
    using that assms(1,2) by (simp add: i_def)
  have at: "[lo..hi] ! i = e"
    using nth [of i] assms(1) by (simp add: i_def)
  have before: "\<not> P ([lo..hi] ! j)" if "j < i" for j
    using that nth [of j] assms(4) [of "lo + int j"] by (simp add: i_def)
  show ?thesis
    unfolding find_Some_iff
    using len at before assms(3) by (intro exI [of _ i]) auto
qed

lemma exponent_eqI:
  assumes "- 1022 \<le> e" "e \<le> 1023" "\<bar>x\<bar> < 2 powi (e + 1)" "e = - 1022 \<or> 2 powi e \<le> \<bar>x\<bar>"
  shows "exponent x = e"
proof -
  have before: "\<not> \<bar>x\<bar> < 2 powi (e' + 1)" if "- 1022 \<le> e'" "e' < e" for e'
  proof -
    have "(2::real) powi (e' + 1) \<le> 2 powi e"
      using that by (intro power_int_increasing) simp_all
    moreover have "e \<noteq> - 1022" using that by simp
    ultimately have "(2::real) powi (e' + 1) \<le> \<bar>x\<bar>"
      using assms(4) by simp
    then show ?thesis by simp
  qed
  have "find (\<lambda>e. \<bar>x\<bar> < 2 powi (e + 1)) [- 1022..1023] = Some e"
    using assms(1-3) before by (rule find_upto_least)
  then show ?thesis by (simp only: exponent_def option.case)
qed

lemma round_double_eqI:
  assumes "- 1022 \<le> e" "e \<le> 1023" "\<bar>x\<bar> < 2 powi (e + 1)" "e = - 1022 \<or> 2 powi e \<le> \<bar>x\<bar>"
    and "round_half_even (x / 2 powi (e - 52)) = n"
  shows "round_double x = of_int n * 2 powi (e - 52)"
  using exponent_eqI [OF assms(1-4)] assms(5) by (simp add: round_double_def)

text \<open>The literals of lines 93 and 96 as doubles.\<close>

lemma double_0_02: "round_double 0.02 = 5764607523034235 / 2 ^ 58"
  using round_double_eqI [of "- 6" "0.02" 5764607523034235]
  by (simp add: round_half_even_def power_int_minus)

lemma double_0_01: "round_double 0.01 = 5764607523034235 / 2 ^ 59"
  using round_double_eqI [of "- 7" "0.01" 5764607523034235]
  by (simp add: round_half_even_def power_int_minus)

lemma double_0_90: "round_double 0.90 = 8106479329266893 / 2 ^ 53"
  using round_double_eqI [of "- 1" "0.90" 8106479329266893]
  by (simp add: round_half_even_def power_int_minus)

lemma double_0_70: "round_double 0.70 = 3152519739159347 / 2 ^ 52"
  using round_double_eqI [of "- 1" "0.70" 6305039478318694]
  by (simp add: round_half_even_def power_int_minus)

lemma double_0_1: "round_double 0.1 = 3602879701896397 / 2 ^ 55"
  using round_double_eqI [of "- 4" "0.1" 7205759403792794]
  by (simp add: round_half_even_def power_int_minus)

lemma round_double_0: "round_double 0 = 0"
  using round_double_eqI [of "- 1022" 0 0] by (simp add: round_half_even_def)

lemma round_double_1: "round_double 1 = 1"
  using round_double_eqI [of 0 1 "2 ^ 52"] by (simp add: round_half_even_def power_int_minus)

lemma round_double_sixteenth: "round_double (1 / 16) = 1 / 16"
  using round_double_eqI [of "- 4" "1 / 16" "2 ^ 52"]
  by (simp add: round_half_even_def power_int_minus)

text \<open>The operations of lines 93 and 96 at ten kits and fifty percent.\<close>

lemma kits_10: "round_double (10 * (5764607523034235 / 2 ^ 58)) = 3602879701896397 / 2 ^ 54"
  using round_double_eqI [of "- 3" "10 * (5764607523034235 / 2 ^ 58)" 7205759403792794]
  by (simp add: round_half_even_def power_int_minus)

lemma staff_50: "round_double (50 * (5764607523034235 / 2 ^ 59)) = 1 / 2"
  using round_double_eqI [of "- 1" "50 * (5764607523034235 / 2 ^ 59)" 4503599627370496]
  by (simp add: round_half_even_def power_int_minus)

lemma sum_10_50: "round_double (3602879701896397 / 2 ^ 54 + 1 / 2) = 3152519739159347 / 2 ^ 52"
  using round_double_eqI [of "- 1" "3602879701896397 / 2 ^ 54 + 1 / 2" 6305039478318694]
  by (simp add: round_half_even_def power_int_minus)

lemma one_minus: "round_double (1 - 3152519739159347 / 2 ^ 52) = 1351079888211149 / 2 ^ 52"
  using round_double_eqI [of "- 2" "1 - 3152519739159347 / 2 ^ 52" 5404319552844596]
  by (simp add: round_half_even_def power_int_minus)

lemma times_3: "round_double (3 * (1351079888211149 / 2 ^ 52)) = 4053239664633447 / 2 ^ 52"
  using round_double_eqI [of "- 1" "3 * (1351079888211149 / 2 ^ 52)" 8106479329266894]
  by (simp add: round_half_even_def power_int_minus)

lemma sixteenth_scaled:
  "round_double (1 / 16 * (1351079888211149 / 2 ^ 52)) = 1351079888211149 / 2 ^ 56"
  using round_double_eqI [of "- 6" "1 / 16 * (1351079888211149 / 2 ^ 52)" 5404319552844596]
  by (simp add: round_half_even_def power_int_minus)

lemma impact_double_10_50: "impact_double 10 50 = 3152519739159347 / 2 ^ 52"
  unfolding impact_double_def of_int_numeral double_0_02 double_0_01 kits_10 staff_50 sum_10_50
    double_0_90
  by simp

lemma impact_double_10_50_is_0_7: "impact_double 10 50 = round_double 0.70"
  unfolding impact_double_10_50 double_0_70 ..

lemma impact_double_0_0: "impact_double 0 0 = 0"
  unfolding impact_double_def double_0_90 by (simp add: round_double_0)

lemma relief_3_at_10_50:
  "max (round_double (3 * round_double (1 - impact_double 10 50))) (round_double 0.1)
     = 4053239664633447 / 2 ^ 52"
  unfolding impact_double_10_50 one_minus times_3 double_0_1 by simp

lemma relief_sixteenth_at_10_50:
  "max (round_double (1 / 16 * round_double (1 - impact_double 10 50))) (round_double 0.1)
     = round_double 0.1"
  unfolding impact_double_10_50 one_minus sixteenth_scaled double_0_1 by simp

lemma relief_sixteenth_at_0_0:
  "max (round_double (1 / 16 * round_double (1 - impact_double 0 0))) (round_double 0.1)
     = round_double 0.1"
  unfolding impact_double_0_0 diff_zero round_double_1 mult_1_right round_double_sixteenth
    double_0_1
  by simp

section \<open>Stress-test mode\<close>




section \<open>Relief mode\<close>

text \<open>
  C2, as stated. At zero kits and zero staff boost a row of stress 0.0625 keeps its
  stress, where the formula of the claim gives the floor. At ten kits and fifty percent
  the impact is the double 0.7, but the row of stress 3.0 is mapped to
  4053239664633447 / 2^52, which prints as 0.9000000000000001: the double next above the
  double 0.9, and not 0.9.
\<close>

theorem relief_formula_counterexample:
  "deploy_solutions_double 0 0 (frame_of [puri\<lparr>assi := 1 / 16\<rparr>])
     = Inr (frame_of [puri\<lparr>assi := 1 / 16\<rparr>], Info_deploy_resources)
   \<and> max (round_double (1 / 16 * round_double (1 - impact_double 0 0))) (round_double 0.1)
       \<noteq> 1 / 16
   \<and> deploy_solutions_double 10 50 (frame_of [puri\<lparr>assi := 3\<rparr>])
       = Inr (frame_of [puri\<lparr>assi := 4053239664633447 / 2 ^ 52\<rparr>], Success (round_double 0.70))
   \<and> (4053239664633447 / 2 ^ 52 :: real) \<noteq> round_double 0.9
   \<and> (4053239664633447 / 2 ^ 52 :: real) \<noteq> 0.9"
proof (intro conjI)
  show "deploy_solutions_double 0 0 (frame_of [puri\<lparr>assi := 1 / 16\<rparr>])
          = Inr (frame_of [puri\<lparr>assi := 1 / 16\<rparr>], Info_deploy_resources)"
    by (simp add: deploy_solutions_double_def)
  show "max (round_double (1 / 16 * round_double (1 - impact_double 0 0))) (round_double 0.1)
          \<noteq> 1 / 16"
    unfolding relief_sixteenth_at_0_0 double_0_1 by simp
  show "deploy_solutions_double 10 50 (frame_of [puri\<lparr>assi := 3\<rparr>])
          = Inr (frame_of [puri\<lparr>assi := 4053239664633447 / 2 ^ 52\<rparr>], Success (round_double 0.70))"
    using relief_3_at_10_50 impact_double_10_50_is_0_7
    by (simp add: deploy_solutions_double_def frame_of_def all_columns_def)
  show "(4053239664633447 / 2 ^ 52 :: real) \<noteq> round_double 0.9"
    using double_0_90 by simp
  show "(4053239664633447 / 2 ^ 52 :: real) \<noteq> 0.9"
    by simp
qed

text \<open>
  C2, amended. For every kit count k in [0, 50] and staff percentage s in [0, 100], not
  both zero, the relief branch computes impact = min (0.02 k + 0.01 s, 0.90) and maps the
  stress of every row to max (stress * (1 - impact), 0.1), each literal and each operation
  rounded to the nearest double; at k = s = 0 the stress of every row is unchanged. Ten
  kits and fifty percent give the impact 0.70 (the double of that literal, below the cap),
  and the stress 3.0 becomes 4053239664633447 / 2^52, printed 0.9000000000000001.
\<close>

theorem relief_formula_amended:
  assumes "''assi'' \<in> set (columns dashboard_df)" "0 \<le> k" "k \<le> 50" "0 \<le> s" "s \<le> 100"
  shows "\<exists>df' msg. deploy_solutions_double k s dashboard_df = Inr (df', msg)
           \<and> columns df' = columns dashboard_df
           \<and> impact_double k s
               = min (round_double (round_double (real_of_int k * round_double 0.02)
                                    + round_double (real_of_int s * round_double 0.01)))
                     (round_double 0.90)
           \<and> map assi (rows df') =
               (if 0 < k \<or> 0 < s
                then map (\<lambda>r. max (round_double (assi r * round_double (1 - impact_double k s)))
                                   (round_double 0.1)) (rows dashboard_df)
                else map assi (rows dashboard_df))
           \<and> impact_double 10 50 = round_double 0.70
           \<and> impact_double 10 50 < round_double 0.90
           \<and> max (round_double (3 * round_double (1 - impact_double 10 50))) (round_double 0.1)
               = 4053239664633447 / 2 ^ 52"
proof -
  have capped: "impact_double 10 50 < round_double 0.90"
    unfolding impact_double_10_50 double_0_90 by simp
  have general: "\<exists>df' msg. deploy_solutions_double k s dashboard_df = Inr (df', msg)
           \<and> columns df' = columns dashboard_df
           \<and> map assi (rows df') =
               (if 0 < k \<or> 0 < s
                then map (\<lambda>r. max (round_double (assi r * round_double (1 - impact_double k s)))
                                   (round_double 0.1)) (rows dashboard_df)
                else map assi (rows dashboard_df))"
    using assms(1) by (simp add: deploy_solutions_double_def comp_def)
  show ?thesis
    using general capped impact_double_10_50_is_0_7 relief_3_at_10_50
    by (simp only: impact_double_def [of k s]) blast
qed

theorem relief_formula_amended_witness:
  "deploy_solutions_double 10 50 (frame_of [puri, puri\<lparr>assi := 1 / 16\<rparr>])
     = Inr (frame_of [puri\<lparr>assi := 4053239664633447 / 2 ^ 52\<rparr>, puri\<lparr>assi := round_double 0.1\<rparr>],
            Success (round_double 0.70))"
  using relief_formula_amended [of "frame_of [puri, puri\<lparr>assi := 1 / 16\<rparr>]" 10 50]
    relief_3_at_10_50 relief_sixteenth_at_10_50 impact_double_10_50_is_0_7
  by (simp add: deploy_solutions_double_def frame_of_def puri_def all_columns_def)

text \<open>
  C3, as stated, at zero kits and zero staff boost: a row of stress 0 stays at 0, below
  the floor.
\<close>

theorem relief_floor_counterexample:
  "deploy_solutions 0 0 (frame_of [puri\<lparr>assi := 0\<rparr>])
     = Inr (frame_of [puri\<lparr>assi := 0\<rparr>], Info_deploy_resources)
   \<and> \<not> 0.1 \<le> assi (puri\<lparr>assi := 0\<rparr>)"
  by (simp add: deploy_solutions_def)

text \<open>
  C3, amended. For every kit count k in [0, 50] and staff percentage s in [0, 100], not
  both zero, every row's stress after the relief branch is at least 0.1.
\<close>

theorem relief_floor_amended:
  assumes "''assi'' \<in> set (columns dashboard_df)" "0 \<le> k" "k \<le> 50" "0 \<le> s" "s \<le> 100"
    and "0 < k \<or> 0 < s"
  shows "\<exists>df' msg. deploy_solutions k s dashboard_df = Inr (df', msg)
           \<and> length (rows df') = length (rows dashboard_df)
           \<and> (\<forall>r \<in> set (rows df'). 0.1 \<le> assi r)"
  using assms(1,6) by (auto simp: deploy_solutions_def)

theorem relief_floor_amended_witness:
  "deploy_solutions 1 0 (frame_of [puri\<lparr>assi := 0\<rparr>])
     = Inr (frame_of [puri\<lparr>assi := 0.1\<rparr>], Success 0.02)
   \<and> (0.1::real) \<le> assi (puri\<lparr>assi := 0.1\<rparr>)"
  using relief_floor_amended [of "frame_of [puri\<lparr>assi := 0\<rparr>]" 1 0]
  by (simp add: deploy_solutions_def impact_def frame_of_def puri_def all_columns_def)

section \<open>Both modes\<close>




text \<open>
  C7. Frame condition: each scenario branch overwrites only the stress field. The header
  is unchanged, no row is added or removed, and each row agrees with the row it comes
  from in every field other than the stress.
\<close>

theorem simulate_frame:
  assumes "''assi'' \<in> set (columns dashboard_df)"
  shows "\<exists>df' msg. simulate mode dashboard_df = Inr (df', msg)
           \<and> columns df' = columns dashboard_df
           \<and> length (rows df') = length (rows dashboard_df)
           \<and> map (\<lambda>r. r\<lparr>assi := 0\<rparr>) (rows df') = map (\<lambda>r. r\<lparr>assi := 0\<rparr>) (rows dashboard_df)"
  using assms by (cases mode) (simp_all add: stress_test_def deploy_solutions_def Let_def comp_def)

theorem simulate_frame_witness:
  "simulate (Stress_Test 2) (frame_of [puri, puri\<lparr>district := ''Cuttack''\<rparr>])
     = Inr (frame_of [puri\<lparr>assi := 6\<rparr>, puri\<lparr>district := ''Cuttack'', assi := 6\<rparr>], Alert 2 2)
   \<and> simulate (Deploy_Solutions 10 50) (frame_of [puri, puri\<lparr>district := ''Cuttack''\<rparr>])
     = Inr (frame_of [puri\<lparr>assi := 0.9\<rparr>, puri\<lparr>district := ''Cuttack'', assi := 0.9\<rparr>], Success 0.7)"
  using simulate_frame [of "frame_of [puri, puri\<lparr>district := ''Cuttack''\<rparr>]" "Stress_Test 2"]
  by (simp add: stress_test_def deploy_solutions_def count_collapsed_def impact_def frame_of_def puri_def all_columns_def)

text \<open>
  C10. At the default slider settings each simulation mode is the identity on the data:
  with the multiplier at exactly 1.0 the stress-test branch multiplies nothing and
  computes no collapsed count (it shows the information message), and with zero kits and
  zero staff boost the relief branch neither scales nor floors. Every row, also one with
  stress below 0.1 or above 5.0, is left as loaded.
\<close>

theorem default_settings_identity:
  "stress_test 1 dashboard_df = Inr (dashboard_df, Info_increase_load)
   \<and> deploy_solutions 0 0 dashboard_df = Inr (dashboard_df, Info_deploy_resources)
   \<and> simulate (Stress_Test 1) (frame_of [puri\<lparr>assi := 1 / 20\<rparr>, puri\<lparr>assi := 6\<rparr>])
       = Inr (frame_of [puri\<lparr>assi := 1 / 20\<rparr>, puri\<lparr>assi := 6\<rparr>], Info_increase_load)
   \<and> simulate (Deploy_Solutions 0 0) (frame_of [puri\<lparr>assi := 1 / 20\<rparr>, puri\<lparr>assi := 6\<rparr>])
       = Inr (frame_of [puri\<lparr>assi := 1 / 20\<rparr>, puri\<lparr>assi := 6\<rparr>], Info_deploy_resources)"
  by (simp add: stress_test_def deploy_solutions_def)



section \<open>Loader\<close>

text \<open>
  C5, as stated: the region name \<open>'' kerala ''\<close> is loaded as \<open>''Kerala''\<close>, which is none
  of the corrected names of the table; a name the table does not know passes through.
\<close>

theorem normalization_counterexample:
  "load_data (Some (frame_of [puri\<lparr>state := '' kerala ''\<rparr>]))
     = Completed (frame_of [puri\<lparr>state := ''Kerala''\<rparr>])
   \<and> ''Kerala'' \<notin> set (map snd state_corrections)"
  by (simp add: load_data_def frame_of_def all_columns_def puri_def eval_clean)

text \<open>
  C5, amended. For every input dataset with a region column the loader maps each row's
  region name through trim, then title case, then the correction table, where a name that
  is not a key of the table stays as it is. Afterwards no row's region name is one of the
  misspelt keys of the table; a name whose trimmed, title-cased form is a key has become
  one of the corrected names.
\<close>

theorem normalization_amended:
  assumes "''state'' \<in> set (columns df)"
  shows "\<exists>df'. load_data (Some df) = Completed df'
           \<and> columns df' = columns df
           \<and> map state (rows df')
               = map (\<lambda>r. replace_value state_corrections (title (strip (state r)))) (rows df)
           \<and> (\<forall>r \<in> set (rows df'). state r \<notin> set (map fst state_corrections))
           \<and> (\<forall>r \<in> set (rows df).
                 if title (strip (state r)) \<in> set (map fst state_corrections)
                 then clean_state (state r) \<in> set (map snd state_corrections)
                 else clean_state (state r) = title (strip (state r)))"
proof -
  define df' where "df' = df\<lparr>rows := map (\<lambda>r. r\<lparr>state := clean_state (state r)\<rparr>) (rows df)\<rparr>"
  have loaded: "load_data (Some df) = Completed df'"
    using assms by (simp add: load_data_def df'_def)
  have cols: "columns df' = columns df"
    by (simp add: df'_def)
  have states: "map state (rows df')
                  = map (\<lambda>r. replace_value state_corrections (title (strip (state r)))) (rows df)"
    by (simp add: df'_def clean_state_def comp_def)
  have no_key: "\<forall>r \<in> set (rows df'). state r \<notin> set (map fst state_corrections)"
  proof
    fix r assume "r \<in> set (rows df')"
    then have "state r \<in> set (map state (rows df'))"
      by simp
    then have "\<exists>v. state r = replace_value state_corrections v"
      unfolding states by auto
    then obtain v where "state r = replace_value state_corrections v"
      by blast
    then show "state r \<notin> set (map fst state_corrections)"
      by (simp only: replace_value_not_key not_False_eq_True)
  qed
  have each: "\<forall>r \<in> set (rows df).
                 if title (strip (state r)) \<in> set (map fst state_corrections)
                 then clean_state (state r) \<in> set (map snd state_corrections)
                 else clean_state (state r) = title (strip (state r))"
  proof
    fix r assume "r \<in> set (rows df)"
    show "if title (strip (state r)) \<in> set (map fst state_corrections)
          then clean_state (state r) \<in> set (map snd state_corrections)
          else clean_state (state r) = title (strip (state r))"
    proof (cases "title (strip (state r)) \<in> set (map fst state_corrections)")
      case True
      from replace_value_of_key [OF True] True show ?thesis
        unfolding clean_state_def by simp
    next
      case False
      from replace_value_other [OF False] False show ?thesis
        unfolding clean_state_def by simp
    qed
  qed
  show ?thesis
    by (intro exI [of _ df'] conjI loaded cols states no_key each)
qed

theorem normalization_amended_witness:
  "load_data (Some (frame_of [puri\<lparr>state := ''ORISSA''\<rparr>, puri\<lparr>state := '' west bangal''\<rparr>]))
     = Completed (frame_of [puri\<lparr>state := ''Odisha''\<rparr>, puri\<lparr>state := ''West Bengal''\<rparr>])"
  using normalization_amended [of "frame_of [puri\<lparr>state := ''ORISSA''\<rparr>, puri\<lparr>state := '' west bangal''\<rparr>]"]
  by (simp add: load_data_def frame_of_def all_columns_def puri_def eval_clean)

section \<open>Region filter\<close>

text \<open>
  C6. When a specific region is selected the working frame holds exactly the rows whose
  region equals the selection (in their order), and everything computed after the filter
  (transform, metrics, tables, export) depends on the loaded data only through those
  rows: two loaded frames with the same header and the same rows of the selected region
  give the same page. When \<^verbatim>\<open>All India\<close> is selected the working frame is the whole frame.
\<close>

theorem region_filter:
  assumes "selected_state inp \<noteq> ''All India''"
    and "columns df = columns other"
    and "filter (\<lambda>r. state r = selected_state inp) (rows df)
           = filter (\<lambda>r. state r = selected_state inp) (rows other)"
  shows "rows (filter_region (selected_state inp) df)
           = filter (\<lambda>r. state r = selected_state inp) (rows df)
       \<and> columns (filter_region (selected_state inp) df) = columns df
       \<and> filter_region ''All India'' df = df
       \<and> dashboard inp df = dashboard inp other"
proof -
  have "filter_region (selected_state inp) df = filter_region (selected_state inp) other"
    using assms by (simp add: filter_region_def)
  then have "dashboard inp df = dashboard inp other"
    by (simp add: dashboard_def)
  then show ?thesis
    using assms(1) by (simp add: filter_region_def)
qed

theorem region_filter_witness:
  "filter_region ''Odisha'' (frame_of [puri, puri\<lparr>state := ''Kerala''\<rparr>]) = frame_of [puri]
   \<and> dashboard \<lparr>selected_state = ''Odisha'', simulation = Stress_Test 2, sel_dist = ''Puri''\<rparr>
         (frame_of [puri, puri\<lparr>state := ''Kerala''\<rparr>])
     = dashboard \<lparr>selected_state = ''Odisha'', simulation = Stress_Test 2, sel_dist = ''Puri''\<rparr>
         (frame_of [puri\<lparr>state := ''Bihar''\<rparr>, puri])"
  using region_filter [of "\<lparr>selected_state = ''Odisha'', simulation = Stress_Test 2, sel_dist = ''Puri''\<rparr>"
      "frame_of [puri, puri\<lparr>state := ''Kerala''\<rparr>]" "frame_of [puri\<lparr>state := ''Bihar''\<rparr>, puri]"]
  by (simp add: filter_region_def frame_of_def puri_def)

section \<open>Error handling\<close>















lemma simulate_present:
  assumes "''assi'' \<in> set (columns df)"
  shows "\<exists>df' msg. simulate mode df = Inr (df', msg)"
  using assms by (cases mode) (simp_all add: stress_test_def deploy_solutions_def Let_def)











end
